theory Spec2Isabelle
  imports Complex_Main "HOL-Library.Multiset" "HOL-Library.Char_ord" "HOL-Library.List_Lexorder"
begin

section \<open>Client-side cache with a one-minute TTL\<close>

text \<open>
  The cache module keeps a process-wide \<open>Map<string, CacheEntry>\<close>. The model passes the
  store explicitly, and every function that reads \<open>Date.now()\<close> takes the clock reading
  (integer milliseconds) as its first argument. \<open>null\<close> results are \<open>None\<close>.
\<close>

record 'a CacheEntry =
  data :: 'a
  timestamp :: int

type_synonym 'a cacheStore = "string \<rightharpoonup> 'a CacheEntry"

definition CACHE_TTL_MS :: int where
  "CACHE_TTL_MS = 60 * 1000"

definition isExpired :: "int \<Rightarrow> int \<Rightarrow> bool" where
  "isExpired now ts = (now - ts > CACHE_TTL_MS)"

definition getCached :: "int \<Rightarrow> string \<Rightarrow> 'a cacheStore \<Rightarrow> 'a option \<times> 'a cacheStore" where
  "getCached now key store =
     (case store key of
        None \<Rightarrow> (None, store)
      | Some entry \<Rightarrow>
          if isExpired now (timestamp entry) then (None, store(key := None))
          else (Some (data entry), store))"

definition setCached :: "int \<Rightarrow> string \<Rightarrow> 'a \<Rightarrow> 'a cacheStore \<Rightarrow> 'a cacheStore" where
  "setCached now key d store = store(key \<mapsto> \<lparr>data = d, timestamp = now\<rparr>)"

definition clearCached :: "string \<Rightarrow> 'a cacheStore \<Rightarrow> 'a cacheStore" where
  "clearCached key store = store(key := None)"

text \<open>
  \<open>clearExpiredEntries\<close> tests every entry against the clock; the sweep is taken to see
  one clock reading.
\<close>

definition clearExpiredEntries :: "int \<Rightarrow> 'a cacheStore \<Rightarrow> 'a cacheStore" where
  "clearExpiredEntries now store =
     (\<lambda>key. case store key of
               None \<Rightarrow> None
             | Some entry \<Rightarrow> if isExpired now (timestamp entry) then None else Some entry)"

definition clearAllCache :: "'a cacheStore \<Rightarrow> 'a cacheStore" where
  "clearAllCache store = Map.empty"

text \<open>
  A call of the module's API by some other part of the application, with the clock
  reading at which it happens (\<open>clearExpiredEntries\<close> is also what the five-minute timer
  calls).
\<close>

datatype 'a cacheCall =
    CallGet int string
  | CallSet int string 'a
  | CallClear string
  | CallClearExpired int
  | CallClearAll

fun runCall :: "'a cacheCall \<Rightarrow> 'a cacheStore \<Rightarrow> 'a cacheStore" where
  "runCall (CallGet now k) store = snd (getCached now k store)"
| "runCall (CallSet now k d) store = setCached now k d store"
| "runCall (CallClear k) store = clearCached k store"
| "runCall (CallClearExpired now) store = clearExpiredEntries now store"
| "runCall CallClearAll store = clearAllCache store"

fun runCalls :: "'a cacheCall list \<Rightarrow> 'a cacheStore \<Rightarrow> 'a cacheStore" where
  "runCalls [] store = store"
| "runCalls (c # cs) store = runCalls cs (runCall c store)"

text \<open>
  The calls that may come between \<open>setCached k v\<close> and a \<open>getCached k\<close> at time \<open>t\<close>:
  no \<open>setCached\<close>, \<open>clearCached\<close> or \<open>clearAllCache\<close> that touches \<open>k\<close>; reads of \<open>k\<close>
  and sweeps of expired entries happen at clock readings not later than \<open>t\<close>.
\<close>

fun leavesEntry :: "string \<Rightarrow> int \<Rightarrow> 'a cacheCall \<Rightarrow> bool" where
  "leavesEntry k t (CallGet now k') = (k' \<noteq> k \<or> now \<le> t)"
| "leavesEntry k t (CallSet now k' d) = (k' \<noteq> k)"
| "leavesEntry k t (CallClear k') = (k' \<noteq> k)"
| "leavesEntry k t (CallClearExpired now) = (now \<le> t)"
| "leavesEntry k t CallClearAll = False"

text \<open>The entry for \<open>k\<close> is still the one stored, or it has been dropped as expired.\<close>

definition entryKept :: "string \<Rightarrow> 'a \<Rightarrow> int \<Rightarrow> int \<Rightarrow> 'a cacheStore \<Rightarrow> bool" where
  "entryKept k v t0 t store =
     (store k = Some \<lparr>data = v, timestamp = t0\<rparr> \<or> (store k = None \<and> isExpired t t0))"

section \<open>Cache keys\<close>

text \<open>
  \<open>getSolanaTokenDataCacheKey\<close> copies the caller's array with a spread and sorts the copy
  in place. Arrays are objects, so the model keeps them in a store indexed by reference:
  the spread allocates a new array, and \<open>Array.prototype.sort\<close> overwrites the array it is
  called on. The default comparison of \<open>sort\<close> orders strings by code unit, which is the
  lexicographic order on \<open>string\<close>.
\<close>

type_synonym arrayStore = "string list list"

definition spread :: "nat \<Rightarrow> arrayStore \<Rightarrow> nat \<times> arrayStore" where
  "spread a h = (length h, h @ [h ! a])"

definition arraySort :: "nat \<Rightarrow> arrayStore \<Rightarrow> nat \<times> arrayStore" where
  "arraySort a h = (a, h[a := sort (h ! a)])"

fun join :: "string \<Rightarrow> string list \<Rightarrow> string" where
  "join sep [] = []"
| "join sep [x] = x"
| "join sep (x # y # ys) = x @ sep @ join sep (y # ys)"

definition getSolanaTokenDataCacheKey :: "nat \<Rightarrow> arrayStore \<Rightarrow> string \<times> arrayStore" where
  "getSolanaTokenDataCacheKey addresses h =
     (let (copy, h1) = spread addresses h;
          (sortedAddresses, h2) = arraySort copy h1
      in (''solana-token-data-'' @ join '','' (h2 ! sortedAddresses), h2))"

section \<open>JavaScript values\<close>

text \<open>
  A number is \<open>NaN\<close>, an infinity, or a finite value, given by the rational it denotes
  (both zeros are \<open>Fin 0\<close>). The rounding of arithmetic to the nearest double is not
  modelled: the code below only adds numbers and then compares the sum it computed with 0.
\<close>

datatype jsnum = NaN | NegInf | Fin rat | PosInf

fun numTruthy :: "jsnum \<Rightarrow> bool" where
  "numTruthy NaN = False"
| "numTruthy (Fin r) = (r \<noteq> 0)"
| "numTruthy NegInf = True"
| "numTruthy PosInf = True"

fun numGreaterThanZero :: "jsnum \<Rightarrow> bool" where
  "numGreaterThanZero NaN = False"
| "numGreaterThanZero NegInf = False"
| "numGreaterThanZero (Fin r) = (r > 0)"
| "numGreaterThanZero PosInf = True"

fun numAdd :: "jsnum \<Rightarrow> jsnum \<Rightarrow> jsnum" where
  "numAdd NaN _ = NaN"
| "numAdd _ NaN = NaN"
| "numAdd PosInf NegInf = NaN"
| "numAdd NegInf PosInf = NaN"
| "numAdd PosInf _ = PosInf"
| "numAdd _ PosInf = PosInf"
| "numAdd NegInf _ = NegInf"
| "numAdd _ NegInf = NegInf"
| "numAdd (Fin a) (Fin b) = Fin (a + b)"

text \<open>
  The values \<open>JSON.parse\<close> produces. An object is the list of its own properties; a
  property that is absent reads as \<open>undefined\<close>, which is \<open>None\<close>.
\<close>

datatype json =
    JNull
  | JBool bool
  | JNumber jsnum
  | JString string
  | JArray "json list"
  | JObject "(string \<times> json) list"

datatype jstype = TUndefined | TObject | TBoolean | TNumber | TString

fun typeof :: "json option \<Rightarrow> jstype" where
  "typeof None = TUndefined"
| "typeof (Some JNull) = TObject"
| "typeof (Some (JBool _)) = TBoolean"
| "typeof (Some (JNumber _)) = TNumber"
| "typeof (Some (JString _)) = TString"
| "typeof (Some (JArray _)) = TObject"
| "typeof (Some (JObject _)) = TObject"

fun truthy :: "json \<Rightarrow> bool" where
  "truthy JNull = False"
| "truthy (JBool b) = b"
| "truthy (JNumber n) = numTruthy n"
| "truthy (JString s) = (s \<noteq> [])"
| "truthy (JArray _) = True"
| "truthy (JObject _) = True"

text \<open>
  Reading one of the properties \<open>name\<close>, \<open>tokens\<close>, \<open>chainId\<close>, \<open>address\<close>, \<open>symbol\<close>,
  \<open>decimals\<close> of a value other than \<open>null\<close>: no prototype of a parsed value defines any of
  them, so only an object's own properties count. Reading a property of \<open>null\<close> throws and
  is handled where it happens.
\<close>

fun getProp :: "json \<Rightarrow> string \<Rightarrow> json option" where
  "getProp (JObject kvs) k = map_of kvs k"
| "getProp _ k = None"

fun isArray :: "json option \<Rightarrow> bool" where
  "isArray (Some (JArray _)) = True"
| "isArray _ = False"

text \<open>The elements of an array, for the loop over \<open>data.tokens\<close> that follows the test
  \<open>Array.isArray(data.tokens)\<close>.\<close>

fun elements :: "json option \<Rightarrow> json list" where
  "elements (Some (JArray xs)) = xs"
| "elements _ = []"

text \<open>
  \<open>String.prototype.trim\<close> removes white space and line terminators from both ends; among
  the code units below 256 these are tab, line feed, vertical tab, form feed, carriage
  return, space and no-break space.
\<close>

definition isWhiteSpace :: "char \<Rightarrow> bool" where
  "isWhiteSpace c = (of_char c \<in> {9, 10, 11, 12, 13, 32, 160 :: nat})"

definition trim :: "string \<Rightarrow> string" where
  "trim s = rev (dropWhile isWhiteSpace (rev (dropWhile isWhiteSpace s)))"

text \<open>\<open>!x.trim()\<close> for a value \<open>x\<close> already known to be a string.\<close>

fun trimmedIsEmpty :: "json option \<Rightarrow> bool" where
  "trimmedIsEmpty (Some (JString s)) = (trim s = [])"
| "trimmedIsEmpty _ = False"

text \<open>
  A thrown value: an instance of \<open>Error\<close> with its message, or some other value that is
  neither \<open>null\<close> nor \<open>undefined\<close>, with its \<open>message\<close> property when it has one.
\<close>

datatype thrown = ErrorObject string | OtherValue "string option"

fun message :: "thrown \<Rightarrow> string option" where
  "message (ErrorObject m) = Some m"
| "message (OtherValue m) = m"

fun digitChar :: "nat \<Rightarrow> char" where
  "digitChar d = char_of (48 + d)"

fun showNat :: "nat \<Rightarrow> string" where
  "showNat n = (if n < 10 then [digitChar n] else showNat (n div 10) @ [digitChar (n mod 10)])"

section \<open>Token list validation\<close>

record TokenListValidationResult =
  url :: string
  isValid :: bool
  error :: "string option"
  tokenCount :: "nat option"

text \<open>
  The test applied to one element of \<open>data.tokens\<close>. The first operand of the
  disjunction reads \<open>token.chainId\<close>, which throws a \<open>TypeError\<close> when the element is
  \<open>null\<close> (the message is the one V8 gives).
\<close>

definition tokenIsMalformed :: "json \<Rightarrow> thrown + bool" where
  "tokenIsMalformed token =
     (if token = JNull
      then Inl (ErrorObject ''Cannot read properties of null (reading 'chainId')'')
      else Inr (typeof (getProp token ''chainId'') \<noteq> TNumber \<or>
                typeof (getProp token ''address'') \<noteq> TString \<or>
                typeof (getProp token ''symbol'') \<noteq> TString \<or>
                typeof (getProp token ''name'') \<noteq> TString \<or>
                typeof (getProp token ''decimals'') \<noteq> TNumber))"

fun validateTokens :: "json list \<Rightarrow> thrown + bool" where
  "validateTokens [] = Inr True"
| "validateTokens (token # rest) =
     (case tokenIsMalformed token of
        Inl e \<Rightarrow> Inl e
      | Inr True \<Rightarrow> Inr False
      | Inr False \<Rightarrow> validateTokens rest)"

definition validateTokenList :: "json \<Rightarrow> thrown + bool" where
  "validateTokenList d =
     (if \<not> truthy d \<or> typeof (Some d) \<noteq> TObject then Inr False
      else if typeof (getProp d ''name'') \<noteq> TString \<or> trimmedIsEmpty (getProp d ''name'')
      then Inr False
      else if \<not> isArray (getProp d ''tokens'') then Inr False
      else validateTokens (elements (getProp d ''tokens'')))"

text \<open>
  The network. A \<open>Response\<close> carries its status line and what \<open>response.json()\<close> gives:
  the parsed body, or the value it rejects with. \<open>response.ok\<close> is true for the statuses
  200 to 299. A call of \<open>fetch\<close> returns a response or throws (a network error, or the
  abort raised by the 10 second timer of \<open>fetchTokenListWithTimeout\<close>). The network says
  what the \<open>i\<close>-th call of \<open>fetch\<close> of the run gives for the URL it is made for.
\<close>

record response =
  status :: nat
  statusText :: string
  jsonBody :: "thrown + json"

definition ok :: "'a response_scheme \<Rightarrow> bool" where
  "ok r = (200 \<le> status r \<and> status r \<le> 299)"

type_synonym fetchOutcome = "thrown + response"

type_synonym network = "nat \<Rightarrow> string \<Rightarrow> fetchOutcome"

text \<open>What the run has done so far: the calls of \<open>fetch\<close> and the delays waited.\<close>

datatype event = Fetched string | Slept nat

fun isFetched :: "event \<Rightarrow> bool" where
  "isFetched (Fetched _) = True"
| "isFetched (Slept _) = False"

definition fetchCount :: "event list \<Rightarrow> nat" where
  "fetchCount tr = length (filter isFetched tr)"

definition fetchTokenListWithTimeout ::
  "network \<Rightarrow> string \<Rightarrow> nat \<Rightarrow> event list \<Rightarrow> fetchOutcome \<times> event list" where
  "fetchTokenListWithTimeout net u timeoutMs tr = (net (fetchCount tr) u, tr @ [Fetched u])"

text \<open>
  The body of the \<open>try\<close> block of \<open>fetchTokenListWithRetry\<close>, on the outcome of the fetch:
  the token count, or the value thrown.
\<close>

definition tokensLength :: "json \<Rightarrow> nat" where
  "tokensLength d = length (elements (getProp d ''tokens''))"

definition validateResponse :: "fetchOutcome \<Rightarrow> thrown + nat" where
  "validateResponse r =
     (case r of
        Inl e \<Rightarrow> Inl e
      | Inr resp \<Rightarrow>
          if \<not> ok resp
          then Inl (ErrorObject (''HTTP '' @ showNat (status resp) @ '': '' @ statusText resp))
          else (case jsonBody resp of
                  Inl e \<Rightarrow> Inl e
                | Inr d \<Rightarrow>
                    (case validateTokenList d of
                       Inl e \<Rightarrow> Inl e
                     | Inr False \<Rightarrow> Inl (ErrorObject ''Invalid token list format'')
                     | Inr True \<Rightarrow> Inr (tokensLength d))))"

definition delays :: "nat list" where
  "delays = [1000, 2000, 4000]"

definition delayFor :: "nat \<Rightarrow> nat" where
  "delayFor attempt =
     (if attempt < length delays \<and> delays ! attempt \<noteq> 0 then delays ! attempt
      else delays ! (length delays - 1))"

fun errorMessageOf :: "thrown \<Rightarrow> string" where
  "errorMessageOf (ErrorObject m) = m"
| "errorMessageOf (OtherValue _) = ''Unknown error''"

function retryLoop ::
  "network \<Rightarrow> string \<Rightarrow> nat \<Rightarrow> nat \<Rightarrow> event list \<Rightarrow> TokenListValidationResult \<times> event list" where
  "retryLoop net u maxRetries attempt tr =
     (if attempt \<le> maxRetries then
        (let (r, tr1) = fetchTokenListWithTimeout net u 10000 tr in
         case validateResponse r of
           Inr n \<Rightarrow> (\<lparr>url = u, isValid = True, error = None, tokenCount = Some n\<rparr>, tr1)
         | Inl e \<Rightarrow>
             if attempt = maxRetries
             then (\<lparr>url = u, isValid = False, error = Some (errorMessageOf e), tokenCount = None\<rparr>, tr1)
             else retryLoop net u maxRetries (attempt + 1) (tr1 @ [Slept (delayFor attempt)]))
      else (\<lparr>url = u, isValid = False, error = Some ''Max retries exceeded'', tokenCount = None\<rparr>, tr))"
  by pat_completeness auto
termination
  by (relation "measure (\<lambda>(net, u, maxRetries, attempt, tr). maxRetries + 1 - attempt)") auto

declare retryLoop.simps [simp del]

definition fetchTokenListWithRetry ::
  "network \<Rightarrow> string \<Rightarrow> nat \<Rightarrow> event list \<Rightarrow> TokenListValidationResult \<times> event list" where
  "fetchTokenListWithRetry net u maxRetries tr = retryLoop net u maxRetries 0 tr"

definition validateTokenListUrl ::
  "network \<Rightarrow> string \<Rightarrow> event list \<Rightarrow> TokenListValidationResult \<times> event list" where
  "validateTokenListUrl net u tr = fetchTokenListWithRetry net u 3 tr"

definition getValidatedTokenListUrls ::
  "network \<Rightarrow> string \<Rightarrow> string \<Rightarrow> event list \<Rightarrow> string list \<times> event list" where
  "getValidatedTokenListUrls net primaryUrl fallbackUrl tr =
     (let (primaryResult, tr1) = validateTokenListUrl net primaryUrl tr in
      if isValid primaryResult then ([primaryUrl], tr1)
      else
        let (fallbackResult, tr2) = validateTokenListUrl net fallbackUrl tr1 in
        if isValid fallbackResult then ([fallbackUrl], tr2)
        else ([fallbackUrl], tr2))"

definition vaultoPrimary :: string where
  "vaultoPrimary = ''https://vaulto.dev/api/token-list/''"

definition vaultoFallback :: string where
  "vaultoFallback = ''/token-list.json''"

definition uniswapList :: string where
  "uniswapList = ''https://ipfs.io/ipns/tokens.uniswap.org''"

definition getCowSwapTokenLists :: "network \<Rightarrow> event list \<Rightarrow> string list \<times> event list" where
  "getCowSwapTokenLists net tr =
     (let validatedUrls = [];
          (vaultoPrimaryResult, tr1) = validateTokenListUrl net vaultoPrimary tr;
          (validatedUrls, tr2) =
            (if isValid vaultoPrimaryResult then (validatedUrls @ [vaultoPrimary], tr1)
             else
               let (vaultoFallbackResult, tr2) = validateTokenListUrl net vaultoFallback tr1 in
               if isValid vaultoFallbackResult then (validatedUrls @ [vaultoFallback], tr2)
               else (validatedUrls @ [vaultoFallback], tr2));
          (uniswapResult, tr3) = validateTokenListUrl net uniswapList tr2;
          validatedUrls =
            (if isValid uniswapResult then validatedUrls @ [uniswapList] else validatedUrls)
      in (validatedUrls, tr3))"

text \<open>
  The format the validation is meant to accept, in the words of the specification: an
  object whose \<open>name\<close> is a string that is not empty after trimming, whose \<open>tokens\<close> is
  an array, and each element of \<open>tokens\<close> has \<open>chainId\<close> and \<open>decimals\<close> of type number
  and \<open>address\<close>, \<open>symbol\<close> and \<open>name\<close> of type string.
\<close>

fun hasNumberField :: "json \<Rightarrow> string \<Rightarrow> bool" where
  "hasNumberField (JObject kvs) k = (case map_of kvs k of Some (JNumber _) \<Rightarrow> True | _ \<Rightarrow> False)"
| "hasNumberField _ k = False"

fun hasStringField :: "json \<Rightarrow> string \<Rightarrow> bool" where
  "hasStringField (JObject kvs) k = (case map_of kvs k of Some (JString _) \<Rightarrow> True | _ \<Rightarrow> False)"
| "hasStringField _ k = False"

definition wellFormedToken :: "json \<Rightarrow> bool" where
  "wellFormedToken t =
     (hasNumberField t ''chainId'' \<and> hasNumberField t ''decimals'' \<and>
      hasStringField t ''address'' \<and> hasStringField t ''symbol'' \<and> hasStringField t ''name'')"

fun wellFormedTokenList :: "json \<Rightarrow> bool" where
  "wellFormedTokenList (JObject kvs) =
     (case map_of kvs ''name'' of
        Some (JString name) \<Rightarrow>
          trim name \<noteq> [] \<and>
          (case map_of kvs ''tokens'' of
             Some (JArray tokens) \<Rightarrow> list_all wellFormedToken tokens
           | _ \<Rightarrow> False)
      | _ \<Rightarrow> False)"
| "wellFormedTokenList _ = False"

text \<open>Sample payloads and networks, used to run the definitions on concrete inputs.\<close>

definition okResponse :: "json \<Rightarrow> fetchOutcome" where
  "okResponse d = Inr \<lparr>status = 200, statusText = ''OK'', jsonBody = Inr d\<rparr>"

definition sampleTokenList :: json where
  "sampleTokenList = JObject
     [(''name'', JString ''Vaulto''),
      (''tokens'', JArray
         [JObject [(''chainId'', JNumber (Fin 1)), (''address'', JString ''0xA0b8''),
                   (''symbol'', JString ''USDC''), (''name'', JString ''USD Coin''),
                   (''decimals'', JNumber (Fin 6))],
          JObject [(''chainId'', JNumber (Fin 1)), (''address'', JString ''0xC02a''),
                   (''symbol'', JString ''WETH''), (''name'', JString ''Wrapped Ether''),
                   (''decimals'', JNumber (Fin 18)), (''logoURI'', JString ''/weth.png'')]])]"

definition stringDecimalsList :: json where
  "stringDecimalsList = JObject
     [(''name'', JString ''Vaulto''),
      (''tokens'', JArray
         [JObject [(''chainId'', JNumber (Fin 1)), (''address'', JString ''0xA0b8''),
                   (''symbol'', JString ''USDC''), (''name'', JString ''USD Coin''),
                   (''decimals'', JString ''6'')]])]"

definition blankNameList :: json where
  "blankNameList = JObject [(''name'', JString '' ''), (''tokens'', JArray [])]"

definition deadNetwork :: network where
  "deadNetwork i u = Inl (ErrorObject ''Failed to fetch'')"

definition flakyNetwork :: network where
  "flakyNetwork i u =
     (if i = 0 then Inl (ErrorObject ''Failed to fetch'')
      else if i = 1 then
        Inr \<lparr>status = 503, statusText = ''Service Unavailable'', jsonBody = Inr JNull\<rparr>
      else if i = 2 then
        Inr \<lparr>status = 200, statusText = ''OK'',
             jsonBody = Inl (ErrorObject ''Unexpected end of JSON input'')\<rparr>
      else okResponse blankNameList)"

definition onlyFallbackUp :: network where
  "onlyFallbackUp i u =
     (if u = vaultoFallback then okResponse sampleTokenList
      else Inl (ErrorObject ''Failed to fetch''))"

definition onlyUniswapUp :: network where
  "onlyUniswapUp i u =
     (if u = uniswapList then okResponse sampleTokenList else Inl (OtherValue None))"

section \<open>The token configuration library\<close>

text \<open>
  The route and the component import \<open>getTokenMetadata\<close>, \<open>isTokenizedStock\<close> and
  \<open>getStockTicker\<close> from the token utilities, whose source is not part of what is
  verified here. They are parameters of the model: each call returns a value or throws.
\<close>

record Token =
  symbol :: string
  name :: string

record TokenInfo =
  token :: Token
  chainId :: jsnum

record tokenLib =
  getTokenMetadata :: "string \<Rightarrow> thrown + TokenInfo option"
  isTokenizedStock :: "Token \<Rightarrow> thrown + bool"
  getStockTicker :: "Token \<Rightarrow> thrown + string option"

fun stringTruthy :: "string option \<Rightarrow> bool" where
  "stringTruthy None = False"
| "stringTruthy (Some s) = (s \<noteq> [])"

section \<open>The stock-pct-change route\<close>




record StockPctChangeResponse =
  priceChangePercent :: "json option"
  ticker :: "string option"
  error :: "string option"
  details :: "string option"

record NextResponse =
  status :: nat
  body :: StockPctChangeResponse




fun numOr :: "jsnum option \<Rightarrow> jsnum \<Rightarrow> jsnum" where
  "numOr None d = d"
| "numOr (Some n) d = (if numTruthy n then n else d)"


fun messageOr :: "thrown \<Rightarrow> string \<Rightarrow> string" where
  "messageOr e d = (if stringTruthy (message e) then the (message e) else d)"



section \<open>The token details component\<close>

subsection \<open>Strings\<close>

text \<open>
  Token symbols are taken to be ASCII: \<open>toUpperCase\<close> maps the letters a to z to A to Z
  and leaves every other character as it is.
\<close>

definition toUpperChar :: "char \<Rightarrow> char" where
  "toUpperChar c =
     (if (97::nat) \<le> of_char c \<and> of_char c \<le> (122::nat) then char_of (of_char c - (32::nat)) else c)"

definition toUpperCase :: "string \<Rightarrow> string" where
  "toUpperCase s = map toUpperChar s"

definition endsWith :: "string \<Rightarrow> string \<Rightarrow> bool" where
  "endsWith s searchString =
     (length searchString \<le> length s \<and> drop (length s - length searchString) s = searchString)"

text \<open>\<open>s.slice(0, -2)\<close>: all but the last two characters, nothing when there are at most two.\<close>

definition sliceOffLastTwo :: "string \<Rightarrow> string" where
  "sliceOffLastTwo s = take (length s - 2) s"

fun strOr :: "string option \<Rightarrow> string \<Rightarrow> string" where
  "strOr None d = d"
| "strOr (Some s) d = (if s \<noteq> [] then s else d)"

fun orNull :: "string option \<Rightarrow> string option" where
  "orNull None = None"
| "orNull (Some s) = (if s \<noteq> [] then Some s else None)"

subsection \<open>Values computed at render time\<close>

text \<open>
  What \<open>searchParams.get\<close> gives for the six query parameters (\<open>None\<close> is \<open>null\<close>), and
  the constants the component body derives from them, from its props \<open>address\<close> and
  \<open>chainId\<close> and from the token configuration. \<open>parseInt\<close> and \<open>parseFloat\<close> are the
  built-in functions, parameters of the model. Only the fields of
  \<open>CoinGeckoPriceData\<close> that the modelled code reads are kept.
\<close>

record searchParams =
  tvlParam :: "string option"
  volumeParam :: "string option"
  symbolParam :: "string option"
  nameParam :: "string option"
  chainIdParam :: "string option"
  priceChange24hParam :: "string option"

record CoinGeckoPriceData =
  symbol :: string

record renderValues =
  address :: string
  searchResultSymbol :: "string option"
  token :: "Token option"
  tokenChainId :: jsnum
  isStock :: bool
  ticker :: "string option"
  initialTvl :: "jsnum option"
  initialVolume :: "jsnum option"
  tokenSymbol :: string

definition parseInitial :: "(string \<Rightarrow> jsnum) \<Rightarrow> string option \<Rightarrow> jsnum option" where
  "parseInitial parseFloat param =
     (if stringTruthy param then
        (let val = parseFloat (the param)
         in if val \<noteq> NaN \<and> numGreaterThanZero val then Some val else None)
      else None)"

definition computeRenderValues ::
  "tokenLib \<Rightarrow> (string \<Rightarrow> jsnum) \<Rightarrow> (string \<Rightarrow> jsnum) \<Rightarrow> string \<Rightarrow> jsnum option \<Rightarrow> searchParams
     \<Rightarrow> thrown + renderValues" where
  "computeRenderValues lib parseInt parseFloat addr chainIdProp sp =
     (let searchResultSymbol = orNull (symbolParam sp);
          searchResultChainId =
            (if stringTruthy (chainIdParam sp) then Some (parseInt (the (chainIdParam sp))) else None)
      in case getTokenMetadata lib addr of
           Inl e \<Rightarrow> Inl e
         | Inr tokenInfo \<Rightarrow>
            (let tok = map_option TokenInfo.token tokenInfo;
                 chain = numOr searchResultChainId
                           (numOr chainIdProp (numOr (map_option TokenInfo.chainId tokenInfo) (Fin 1)))
             in case (case tok of Some t \<Rightarrow> isTokenizedStock lib t | None \<Rightarrow> Inr False) of
                  Inl e \<Rightarrow> Inl e
                | Inr stock \<Rightarrow>
                   (case (case tok of Some t \<Rightarrow> getStockTicker lib t | None \<Rightarrow> Inr None) of
                      Inl e \<Rightarrow> Inl e
                    | Inr tick \<Rightarrow>
                       Inr \<lparr>address = addr,
                            searchResultSymbol = searchResultSymbol,
                            token = tok,
                            tokenChainId = chain,
                            isStock = stock,
                            ticker = tick,
                            initialTvl = parseInitial parseFloat (tvlParam sp),
                            initialVolume = parseInitial parseFloat (volumeParam sp),
                            tokenSymbol = strOr searchResultSymbol
                                            (strOr (map_option Token.symbol tok) ''TOKEN'')\<rparr>)))"

subsection \<open>State and effects\<close>

text \<open>
  The component state, with the calls of \<open>toast.error\<close> and the first argument of each
  \<open>console.error\<close> and \<open>console.warn\<close> call recorded beside it.
\<close>

record componentState =
  coingeckoData :: "CoinGeckoPriceData option"
  stockData :: "json option"
  tvlUSD :: "jsnum option"
  volumeUSD :: "jsnum option"
  isLoading :: bool
  error :: "string option"
  toasts :: "string list"
  console :: "string list"

definition initialState :: componentState where
  "initialState =
     \<lparr>coingeckoData = None, stockData = None, tvlUSD = None, volumeUSD = None,
      isLoading = True, error = None, toasts = [], console = []\<rparr>"

text \<open>The effect that copies the values of the URL parameters into the state.\<close>

definition setInitialValues :: "renderValues \<Rightarrow> componentState \<Rightarrow> componentState" where
  "setInitialValues rv s =
     (let s1 = (if initialTvl rv \<noteq> None then s\<lparr>tvlUSD := initialTvl rv\<rparr> else s);
          s2 = (if initialVolume rv \<noteq> None then s1\<lparr>volumeUSD := initialVolume rv\<rparr> else s1)
      in s2)"

text \<open>
  The services \<open>fetchData\<close> calls. A response of the stock-data endpoint is a response
  with the outcome of \<open>text()\<close>; of a response of the Solana endpoint the model keeps
  \<open>ok\<close> and what \<open>(await solanaResponse.json()).tokens?.[0]\<close> evaluates to. The numeric
  fields are numbers or absent, as the state they are stored in is typed.
\<close>

record textResponse = response +
  textBody :: "thrown + string"

record SolanaTokenData =
  tvlUSD :: "jsnum option"
  volumeUSD :: "jsnum option"

record solanaResponse =
  solanaOk :: bool
  firstToken :: "thrown + SolanaTokenData option"

record Pool =
  tvlUSD :: "jsnum option"
  volumeUSD :: "jsnum option"

record api =
  fetchTokenPriceByAddress :: "jsnum \<Rightarrow> string \<Rightarrow> thrown + CoinGeckoPriceData option"
  fetchTokenPriceBySymbol :: "string \<Rightarrow> thrown + CoinGeckoPriceData option"
  fetchStockData :: "string \<Rightarrow> thrown + textResponse"
  fetchSolanaTokenData :: "string \<Rightarrow> thrown + solanaResponse"
  getPoolsForToken :: "jsnum \<Rightarrow> string \<Rightarrow> nat \<Rightarrow> thrown + Pool list option"

subsection \<open>The primary price fetch\<close>

definition alternativeChains :: "jsnum list" where
  "alternativeChains = [Fin 1, Fin 42161, Fin 10, Fin 8453, Fin 137]"

fun tryAlternativeChains ::
  "api \<Rightarrow> string \<Rightarrow> jsnum \<Rightarrow> jsnum list \<Rightarrow> thrown + CoinGeckoPriceData option" where
  "tryAlternativeChains a addr chain [] = Inr None"
| "tryAlternativeChains a addr chain (altChainId # rest) =
     (if altChainId \<noteq> chain then
        (case fetchTokenPriceByAddress a altChainId addr of
           Inl e \<Rightarrow> Inl e
         | Inr (Some priceData) \<Rightarrow> Inr (Some priceData)
         | Inr None \<Rightarrow> tryAlternativeChains a addr chain rest)
      else tryAlternativeChains a addr chain rest)"

definition fetchPriceData :: "api \<Rightarrow> renderValues \<Rightarrow> thrown + CoinGeckoPriceData option" where
  "fetchPriceData a rv =
     (case (if address rv \<noteq> [] then fetchTokenPriceByAddress a (tokenChainId rv) (address rv)
            else Inr None) of
        Inl e \<Rightarrow> Inl e
      | Inr byAddress \<Rightarrow>
         (case (if byAddress = None \<and> stringTruthy (map_option Token.symbol (token rv))
                then fetchTokenPriceBySymbol a (Token.symbol (the (token rv)))
                else Inr byAddress) of
            Inl e \<Rightarrow> Inl e
          | Inr bySymbol \<Rightarrow>
             if bySymbol = None \<and> address rv \<noteq> []
             then tryAlternativeChains a (address rv) (tokenChainId rv) alternativeChains
             else Inr bySymbol))"

subsection \<open>The optional fetches\<close>

definition effectiveSymbolOf ::
  "string option \<Rightarrow> CoinGeckoPriceData option \<Rightarrow> string \<Rightarrow> string" where
  "effectiveSymbolOf searchSymbol cg tokSymbol =
     strOr searchSymbol (strOr (map_option CoinGeckoPriceData.symbol cg) tokSymbol)"

definition isOndoTokenOf :: "string \<Rightarrow> bool" where
  "isOndoTokenOf effectiveSymbol =
     (endsWith (toUpperCase effectiveSymbol) ''ON'' \<and> length effectiveSymbol > 2)"

definition ondoTickerOf :: "string \<Rightarrow> string option" where
  "ondoTickerOf effectiveSymbol =
     (if isOndoTokenOf effectiveSymbol then Some (toUpperCase (sliceOffLastTwo effectiveSymbol))
      else None)"

text \<open>
  \<open>fetchData\<close> reads \<open>coingeckoData\<close> from the render it was created in, not the value it
  has just set; that value is the argument \<open>cg\<close>.
\<close>

definition wantsStockData :: "renderValues \<Rightarrow> CoinGeckoPriceData option \<Rightarrow> bool" where
  "wantsStockData rv cg =
     (let effectiveSymbol = effectiveSymbolOf (searchResultSymbol rv) cg (tokenSymbol rv);
          isOndoToken = isOndoTokenOf effectiveSymbol;
          ondoTicker = ondoTickerOf effectiveSymbol
      in (isStock rv \<and> stringTruthy (ticker rv)) \<or> (isOndoToken \<and> stringTruthy ondoTicker))"

definition stockTry :: "api \<Rightarrow> renderValues \<Rightarrow> componentState \<Rightarrow> thrown + componentState" where
  "stockTry a rv s =
     (case fetchStockData a (address rv) of
        Inl e \<Rightarrow> Inl e
      | Inr stockResponse \<Rightarrow>
          if ok stockResponse then
            (case jsonBody stockResponse of
               Inl e \<Rightarrow> Inl e
             | Inr stock \<Rightarrow> Inr (s\<lparr>stockData := Some stock\<rparr>))
          else
            (case textBody stockResponse of
               Inl e \<Rightarrow> Inl e
             | Inr txt \<Rightarrow> Inr (s\<lparr>console := console s @ [''Failed to fetch stock data:'']\<rparr>)))"

definition fetchStock ::
  "api \<Rightarrow> renderValues \<Rightarrow> CoinGeckoPriceData option \<Rightarrow> componentState \<Rightarrow> componentState" where
  "fetchStock a rv cg s =
     (if wantsStockData rv cg then
        (case stockTry a rv s of
           Inr s' \<Rightarrow> s'
         | Inl stockError \<Rightarrow> s\<lparr>console := console s @ [''Error fetching stock data:'']\<rparr>)
      else s)"

fun numOrZero :: "jsnum option \<Rightarrow> jsnum" where
  "numOrZero x = numOr x (Fin 0)"

fun definedAndPositive :: "jsnum option \<Rightarrow> bool" where
  "definedAndPositive None = False"
| "definedAndPositive (Some n) = numGreaterThanZero n"

definition tvlVolumeTry :: "api \<Rightarrow> renderValues \<Rightarrow> componentState \<Rightarrow> thrown + componentState" where
  "tvlVolumeTry a rv s =
     (let needsTvl = (initialTvl rv = None);
          needsVolume = (initialVolume rv = None)
      in if tokenChainId rv = Fin 101 then
           (case fetchSolanaTokenData a (address rv) of
              Inl e \<Rightarrow> Inl e
            | Inr solanaResponse \<Rightarrow>
                if solanaOk solanaResponse then
                  (case firstToken solanaResponse of
                     Inl e \<Rightarrow> Inl e
                   | Inr None \<Rightarrow> Inr s
                   | Inr (Some tokenData) \<Rightarrow>
                       (let s1 = (if needsTvl \<and> definedAndPositive (SolanaTokenData.tvlUSD tokenData)
                                  then s\<lparr>componentState.tvlUSD := SolanaTokenData.tvlUSD tokenData\<rparr>
                                  else s);
                            s2 = (if needsVolume \<and> definedAndPositive (SolanaTokenData.volumeUSD tokenData)
                                  then s1\<lparr>componentState.volumeUSD := SolanaTokenData.volumeUSD tokenData\<rparr>
                                  else s1)
                        in Inr s2))
                else Inr s)
         else
           (case getPoolsForToken a (tokenChainId rv) (address rv) 100 of
              Inl e \<Rightarrow> Inl e
            | Inr None \<Rightarrow> Inr s
            | Inr (Some pools) \<Rightarrow>
                if length pools > 0 then
                  (let totalTVL = foldl (\<lambda>sum pool. numAdd sum (numOrZero (Pool.tvlUSD pool))) (Fin 0) pools;
                       totalVolume = foldl (\<lambda>sum pool. numAdd sum (numOrZero (Pool.volumeUSD pool))) (Fin 0) pools;
                       s1 = (if needsTvl \<and> numGreaterThanZero totalTVL
                             then s\<lparr>componentState.tvlUSD := Some totalTVL\<rparr> else s);
                       s2 = (if needsVolume \<and> numGreaterThanZero totalVolume
                             then s1\<lparr>componentState.volumeUSD := Some totalVolume\<rparr> else s1)
                   in Inr s2)
                else Inr s))"

definition fetchTvlVolume :: "api \<Rightarrow> renderValues \<Rightarrow> componentState \<Rightarrow> componentState" where
  "fetchTvlVolume a rv s =
     (if initialTvl rv = None \<or> initialVolume rv = None then
        (case tvlVolumeTry a rv s of
           Inr s' \<Rightarrow> s'
         | Inl tvlVolumeError \<Rightarrow> s\<lparr>console := console s @ [''Error fetching TVL/volume data:'']\<rparr>)
      else s)"

subsection \<open>fetchData\<close>

definition fetchData :: "api \<Rightarrow> renderValues \<Rightarrow> componentState \<Rightarrow> componentState" where
  "fetchData a rv s =
     (let s1 = s\<lparr>isLoading := True, error := None\<rparr>;
          s2 = (case fetchPriceData a rv of
                  Inr priceData \<Rightarrow>
                    fetchTvlVolume a rv
                      (fetchStock a rv (coingeckoData s) (s1\<lparr>coingeckoData := priceData\<rparr>))
                | Inl err \<Rightarrow>
                    s1\<lparr>console := console s1 @ [''Error fetching token data:''],
                       error := Some (messageOr err ''Failed to load token data''),
                       toasts := toasts s1 @ [''Failed to load token data'']\<rparr>)
      in s2\<lparr>isLoading := False\<rparr>)"

subsection \<open>The chart and the badge\<close>

datatype chartType = Stock | Crypto

record chartView =
  chartSymbol :: string
  chartType :: chartType
  tokenizedStockBadge :: bool

datatype view = LoadingSkeleton | TokenDetails chartView

definition ondoTickerMappings :: "(string \<times> string) list" where
  "ondoTickerMappings = [(''SPYON'', ''SPY'')]"

definition render :: "renderValues \<Rightarrow> componentState \<Rightarrow> view" where
  "render rv s =
     (if isLoading s then LoadingSkeleton
      else
        let effectiveSymbol = effectiveSymbolOf (searchResultSymbol rv) (coingeckoData s) (tokenSymbol rv);
            isOndoToken = isOndoTokenOf effectiveSymbol;
            ondoTicker = ondoTickerOf effectiveSymbol;
            (sym, type) =
              (if isOndoToken \<and> stringTruthy ondoTicker then
                 (let upperSymbol = toUpperCase effectiveSymbol
                  in (strOr (map_of ondoTickerMappings upperSymbol) (the ondoTicker), Stock))
               else if isStock rv \<and> stringTruthy (ticker rv) then
                 (''NASDAQ:'' @ the (ticker rv), Stock)
               else (effectiveSymbol, Crypto))
        in TokenDetails \<lparr>chartSymbol = sym, chartType = type,
                          tokenizedStockBadge = (isStock rv \<or> isOndoToken)\<rparr>)"

subsection \<open>Runs of the component\<close>

record renderInputs =
  lib :: tokenLib
  parseInt :: "string \<Rightarrow> jsnum"
  parseFloat :: "string \<Rightarrow> jsnum"
  addressProp :: string
  chainIdProp :: "jsnum option"
  params :: searchParams

definition renderValuesOf :: "renderInputs \<Rightarrow> thrown + renderValues" where
  "renderValuesOf i =
     computeRenderValues (lib i) (parseInt i) (parseFloat i) (addressProp i) (chainIdProp i) (params i)"

datatype update = SetInitialValues renderInputs | FetchData renderInputs api

fun applyUpdate :: "update \<Rightarrow> componentState \<Rightarrow> componentState" where
  "applyUpdate (SetInitialValues i) s =
     (case renderValuesOf i of Inr rv \<Rightarrow> setInitialValues rv s | Inl e \<Rightarrow> s)"
| "applyUpdate (FetchData i a) s =
     (case renderValuesOf i of Inr rv \<Rightarrow> fetchData a rv s | Inl e \<Rightarrow> s)"

fun applyUpdates :: "update list \<Rightarrow> componentState \<Rightarrow> componentState" where
  "applyUpdates [] s = s"
| "applyUpdates (u # us) s = applyUpdates us (applyUpdate u s)"

fun positiveOrNull :: "jsnum option \<Rightarrow> bool" where
  "positiveOrNull None = True"
| "positiveOrNull (Some n) = (n \<noteq> NaN \<and> numGreaterThanZero n)"

text \<open>The invariant of the two liquidity figures held in the state.\<close>

definition stateInv :: "componentState \<Rightarrow> bool" where
  "stateInv s = (positiveOrNull (componentState.tvlUSD s) \<and> positiveOrNull (componentState.volumeUSD s))"

subsection \<open>Sample inputs\<close>

text \<open>Concrete configurations, services and inputs on which the definitions are run.\<close>

definition sampleLib :: tokenLib where
  "sampleLib =
     \<lparr>getTokenMetadata = (\<lambda>a. if a = ''0xNVDA''
          then Inr (Some \<lparr>TokenInfo.token = \<lparr>Token.symbol = ''NVDAon'', name = ''NVIDIA''\<rparr>, chainId = Fin 1\<rparr>)
          else Inr None),
      isTokenizedStock = (\<lambda>t. Inr True),
      getStockTicker = (\<lambda>t. Inr (Some ''NVDA''))\<rparr>"



definition tonValues :: renderValues where
  "tonValues =
     \<lparr>address = ''0xT0N'', searchResultSymbol = Some ''TON'', token = None, tokenChainId = Fin 1,
      isStock = False, ticker = None, initialTvl = None, initialVolume = None,
      tokenSymbol = ''TON''\<rparr>"

definition priceDown :: api where
  "priceDown =
     \<lparr>fetchTokenPriceByAddress = (\<lambda>c a. Inl (ErrorObject ''Network error'')),
      fetchTokenPriceBySymbol = (\<lambda>sy. Inr None),
      fetchStockData = (\<lambda>a. Inl (OtherValue None)),
      fetchSolanaTokenData = (\<lambda>a. Inl (OtherValue None)),
      getPoolsForToken = (\<lambda>c a n. Inr None)\<rparr>"

definition optionalDown :: api where
  "optionalDown =
     \<lparr>fetchTokenPriceByAddress = (\<lambda>c a. Inr None),
      fetchTokenPriceBySymbol = (\<lambda>sy. Inr None),
      fetchStockData = (\<lambda>a. Inl (ErrorObject ''Failed to fetch'')),
      fetchSolanaTokenData = (\<lambda>a. Inl (OtherValue None)),
      getPoolsForToken = (\<lambda>c a n. Inl (ErrorObject ''subgraph unavailable''))\<rparr>"

definition sampleParseFloat :: "string \<Rightarrow> jsnum" where
  "sampleParseFloat str =
     (if str = ''12.5'' then Fin (25 / 2) else if str = ''-5'' then Fin (- 5) else NaN)"

definition sampleInputs :: renderInputs where
  "sampleInputs =
     \<lparr>lib = sampleLib, parseInt = (\<lambda>str. NaN), parseFloat = sampleParseFloat,
      addressProp = ''0xNVDA'', chainIdProp = None,
      params = \<lparr>tvlParam = Some ''-5'', volumeParam = Some ''12.5'', symbolParam = None,
                nameParam = None, chainIdParam = None, priceChange24hParam = None\<rparr>\<rparr>"

definition samplePools :: api where
  "samplePools =
     \<lparr>fetchTokenPriceByAddress = (\<lambda>c a. Inr None),
      fetchTokenPriceBySymbol = (\<lambda>sy. Inr None),
      fetchStockData = (\<lambda>a. Inl (ErrorObject ''Failed to fetch'')),
      fetchSolanaTokenData = (\<lambda>a. Inl (OtherValue None)),
      getPoolsForToken = (\<lambda>c a n. Inr (Some
         [\<lparr>Pool.tvlUSD = Some (Fin 100), volumeUSD = Some (Fin 7)\<rparr>,
          \<lparr>Pool.tvlUSD = Some NaN, volumeUSD = None\<rparr>,
          \<lparr>Pool.tvlUSD = Some (Fin 50), volumeUSD = Some (Fin 0)\<rparr>]))\<rparr>"

section \<open>Properties of the cache\<close>

lemma isExpired_mono: "isExpired now ts \<Longrightarrow> now \<le> t \<Longrightarrow> isExpired t ts"
  by (simp add: isExpired_def)

lemma runCall_entryKept:
  assumes "entryKept k v t0 t store" "leavesEntry k t c"
  shows "entryKept k v t0 t (runCall c store)"
proof (cases c)
  case (CallGet now k')
  with assms show ?thesis
    by (auto simp: entryKept_def getCached_def isExpired_mono split: option.splits)
next
  case (CallSet now k' d)
  with assms show ?thesis by (auto simp: entryKept_def setCached_def)
next
  case (CallClear k')
  with assms show ?thesis by (auto simp: entryKept_def clearCached_def)
next
  case (CallClearExpired now)
  with assms show ?thesis
    by (auto simp: entryKept_def clearExpiredEntries_def isExpired_mono split: if_splits)
next
  case CallClearAll
  with assms show ?thesis by simp
qed

lemma runCalls_entryKept:
  "entryKept k v t0 t store \<Longrightarrow> \<forall>c \<in> set cs. leavesEntry k t c
     \<Longrightarrow> entryKept k v t0 t (runCalls cs store)"
  by (induction cs arbitrary: store) (simp_all add: runCall_entryKept)

text \<open>
  Claim C2. After \<open>setCached k v\<close> at time \<open>t0\<close>, with no \<open>setCached\<close> or clear for \<open>k\<close>
  in between, \<open>getCached k\<close> at time \<open>t\<close> returns \<open>v\<close> when \<open>t - t0\<close> is at most
  60000 ms, and \<open>null\<close> when \<open>t - t0\<close> is greater than 60000 ms.
\<close>

theorem getCached_after_setCached:
  assumes "\<forall>c \<in> set cs. leavesEntry k t c"
  shows "fst (getCached t k (runCalls cs (setCached t0 k v store)))
           = (if t - t0 \<le> 60000 then Some v else None)"
proof -
  have "entryKept k v t0 t (setCached t0 k v store)"
    by (simp add: entryKept_def setCached_def)
  then have "entryKept k v t0 t (runCalls cs (setCached t0 k v store))"
    using assms by (rule runCalls_entryKept)
  then show ?thesis
    by (auto simp: entryKept_def getCached_def isExpired_def CACHE_TTL_MS_def)
qed

theorem getCached_after_setCached_witness:
  "fst (getCached 61000 ''a''
         (runCalls [CallSet 2000 ''b'' (7::nat), CallGet 3000 ''a'', CallClearExpired 60000, CallClear ''c'']
            (setCached 1000 ''a'' 5 Map.empty))) = Some 5
   \<and> fst (getCached 61001 ''a''
         (runCalls [CallSet 2000 ''b'' (7::nat), CallGet 3000 ''a'', CallClearExpired 60000, CallClear ''c'']
            (setCached 1000 ''a'' 5 Map.empty))) = None"
  using getCached_after_setCached [of "[CallSet 2000 ''b'' (7::nat), CallGet 3000 ''a'', CallClearExpired 60000, CallClear ''c'']" "''a''" 61000 1000 5 Map.empty]
        getCached_after_setCached [of "[CallSet 2000 ''b'' (7::nat), CallGet 3000 ''a'', CallClearExpired 60000, CallClear ''c'']" "''a''" 61001 1000 5 Map.empty]
  by simp

section \<open>Properties of the cache keys\<close>

lemma sort_eq_of_mset_eq:
  fixes xs ys :: "string list"
  assumes "mset xs = mset ys"
  shows "sort xs = sort ys"
proof (rule properties_for_sort)
  show "mset (sort ys) = mset xs" using assms by simp
  show "sorted (sort ys)" by simp
qed

text \<open>
  Claim C10. For two address arrays that are permutations of each other the cache key is
  the same, and the call leaves every array that existed before it, the caller's
  included, as it was.
\<close>

theorem getSolanaTokenDataCacheKey_permutation:
  assumes "a < length h" and "b < length h'" and "mset (h ! a) = mset (h' ! b)"
  shows "fst (getSolanaTokenDataCacheKey a h) = fst (getSolanaTokenDataCacheKey b h')
         \<and> take (length h) (snd (getSolanaTokenDataCacheKey a h)) = h"
  using assms
  by (simp add: getSolanaTokenDataCacheKey_def spread_def arraySort_def
        sort_eq_of_mset_eq [of "h ! a" "h' ! b"])

theorem getSolanaTokenDataCacheKey_permutation_witness:
  "fst (getSolanaTokenDataCacheKey 0 [[''So11'', ''EPjF'', ''9xQe'']])
     = fst (getSolanaTokenDataCacheKey 1 [[], [''9xQe'', ''So11'', ''EPjF'']])
   \<and> fst (getSolanaTokenDataCacheKey 0 [[''So11'', ''EPjF'', ''9xQe'']])
     = ''solana-token-data-9xQe,EPjF,So11''
   \<and> snd (getSolanaTokenDataCacheKey 0 [[''So11'', ''EPjF'', ''9xQe'']]) ! 0
     = [''So11'', ''EPjF'', ''9xQe'']"
  using getSolanaTokenDataCacheKey_permutation
          [of 0 "[[''So11'', ''EPjF'', ''9xQe'']]" 1 "[[], [''9xQe'', ''So11'', ''EPjF'']]"]
  by (simp add: getSolanaTokenDataCacheKey_def spread_def arraySort_def)

section \<open>Properties of the token list validation\<close>

subsection \<open>The retry loop\<close>

lemma fetchCount_append [simp]: "fetchCount (tr @ tr') = fetchCount tr + fetchCount tr'"
  by (simp add: fetchCount_def)

lemma fetchCount_Fetched [simp]: "fetchCount (Fetched u # tr) = Suc (fetchCount tr)"
  by (simp add: fetchCount_def)

lemma fetchCount_Slept [simp]: "fetchCount (Slept d # tr) = fetchCount tr"
  by (simp add: fetchCount_def)

lemma fetchCount_Nil [simp]: "fetchCount [] = 0"
  by (simp add: fetchCount_def)

lemma retry_fail_step:
  assumes "isl (validateResponse (net (fetchCount tr) u))" "attempt < maxRetries"
  shows "retryLoop net u maxRetries attempt tr
         = retryLoop net u maxRetries (attempt + 1) (tr @ [Fetched u, Slept (delayFor attempt)])"
  using assms
  by (subst retryLoop.simps) (auto simp: fetchTokenListWithTimeout_def split: sum.splits)

lemma retry_fail_last:
  assumes "isl (validateResponse (net (fetchCount tr) u))"
  shows "retryLoop net u maxRetries maxRetries tr
         = (\<lparr>url = u, isValid = False,
              TokenListValidationResult.error = Some (errorMessageOf (projl (validateResponse (net (fetchCount tr) u)))),
              tokenCount = None\<rparr>, tr @ [Fetched u])"
  using assms
  by (subst retryLoop.simps) (auto simp: fetchTokenListWithTimeout_def split: sum.splits)

lemma retry_success:
  assumes "validateResponse (net (fetchCount tr) u) = Inr n"
  shows "retryLoop net u maxRetries 0 tr
         = (\<lparr>url = u, isValid = True, TokenListValidationResult.error = None, tokenCount = Some n\<rparr>, tr @ [Fetched u])"
  using assms by (subst retryLoop.simps) (simp add: fetchTokenListWithTimeout_def)

lemma delayFor_values:
  "delayFor 0 = 1000" "delayFor (Suc 0) = 2000" "delayFor (Suc (Suc 0)) = 4000"
  by (simp_all add: delayFor_def delays_def)

lemma validateTokenListUrl_all_fail:
  assumes "\<forall>i. isl (validateResponse (net i u))"
  shows "validateTokenListUrl net u tr =
     (\<lparr>url = u, isValid = False,
       TokenListValidationResult.error = Some (errorMessageOf (projl (validateResponse (net (fetchCount tr + 3) u)))),
       tokenCount = None\<rparr>,
      tr @ [Fetched u, Slept 1000, Fetched u, Slept 2000, Fetched u, Slept 4000, Fetched u])"
proof -
  have fails: "isl (validateResponse (net i u))" for i
    using assms by simp
  let ?tr1 = "tr @ [Fetched u, Slept 1000]"
  let ?tr2 = "?tr1 @ [Fetched u, Slept 2000]"
  let ?tr3 = "?tr2 @ [Fetched u, Slept 4000]"
  have "retryLoop net u 3 0 tr = retryLoop net u 3 (Suc 0) ?tr1"
    using retry_fail_step [of net tr u 0 3] fails by (simp add: delayFor_values)
  also have "\<dots> = retryLoop net u 3 (Suc (Suc 0)) ?tr2"
    using retry_fail_step [of net ?tr1 u "Suc 0" 3] fails by (simp add: delayFor_values)
  also have "\<dots> = retryLoop net u 3 3 ?tr3"
    using retry_fail_step [of net ?tr2 u "Suc (Suc 0)" 3] fails
    by (simp add: delayFor_values numeral_3_eq_3)
  also have "\<dots> = (\<lparr>url = u, isValid = False,
       TokenListValidationResult.error = Some (errorMessageOf (projl (validateResponse (net (fetchCount tr + 3) u)))),
       tokenCount = None\<rparr>, ?tr3 @ [Fetched u])"
    using retry_fail_last [of net ?tr3 u 3] fails by (simp add: numeral_3_eq_3)
  finally show ?thesis
    by (simp add: validateTokenListUrl_def fetchTokenListWithRetry_def)
qed

lemma validateTokenListUrl_invalid_of_all_fail:
  assumes "\<forall>i. isl (validateResponse (net i u))"
  shows "\<not> isValid (fst (validateTokenListUrl net u tr))"
  using validateTokenListUrl_all_fail [of net u tr] assms by simp

lemma validateTokenListUrl_first_success:
  assumes "validateResponse (net (fetchCount tr) u) = Inr n"
  shows "validateTokenListUrl net u tr
         = (\<lparr>url = u, isValid = True, TokenListValidationResult.error = None, tokenCount = Some n\<rparr>, tr @ [Fetched u])"
  using retry_success [of net tr u n 3] assms
  by (simp add: validateTokenListUrl_def fetchTokenListWithRetry_def)

lemma validateResponse_sample: "validateResponse (okResponse sampleTokenList) = Inr 2"
  by (simp add: validateResponse_def okResponse_def ok_def sampleTokenList_def validateTokenList_def
        trim_def isWhiteSpace_def tokenIsMalformed_def tokensLength_def)

lemma flakyNetwork_fails: "\<forall>i. isl (validateResponse (flakyNetwork i u))"
  by (simp add: flakyNetwork_def validateResponse_def okResponse_def ok_def validateTokenList_def
        blankNameList_def trim_def isWhiteSpace_def)

text \<open>
  Claim C1, as the specification states it, says that a URL whose fetch-and-validate step
  always fails is fetched exactly 3 times, with waits of 1 s and 2 s. On a network where
  every fetch fails the code fetches 4 times: the loop runs for
  \<open>attempt = 0, \<dots>, maxRetries\<close> with \<open>maxRetries = 3\<close>.
\<close>

theorem validateTokenListUrl_three_attempts_counterexample:
  "fetchCount (snd (validateTokenListUrl deadNetwork vaultoPrimary [])) = 4
   \<and> snd (validateTokenListUrl deadNetwork vaultoPrimary []) \<noteq>
       [Fetched vaultoPrimary, Slept 1000, Fetched vaultoPrimary, Slept 2000,
        Fetched vaultoPrimary]"
  by (simp add: validateTokenListUrl_def fetchTokenListWithRetry_def retryLoop.simps
      fetchTokenListWithTimeout_def deadNetwork_def validateResponse_def delayFor_def delays_def)

text \<open>
  Claim C1, amended. For a URL whose fetch-and-validate step always fails,
  \<open>fetchTokenListWithRetry\<close> with \<open>maxRetries = 3\<close> (which is what
  \<open>validateTokenListUrl\<close> calls) fetches exactly 4 times, the first attempt and 3 retries,
  waits 1 s, 2 s and 4 s after the first, second and third failure, and returns a result
  with \<open>isValid\<close> false and the error message of the last attempt.
\<close>

theorem fetchTokenListWithRetry_always_failing:
  assumes "\<forall>i. isl (validateResponse (net i u))"
  shows "fst (fetchTokenListWithRetry net u 3 tr) =
           \<lparr>url = u, isValid = False,
            TokenListValidationResult.error = Some (errorMessageOf (projl (validateResponse (net (fetchCount tr + 3) u)))),
            tokenCount = None\<rparr>
       \<and> snd (fetchTokenListWithRetry net u 3 tr) =
           tr @ [Fetched u, Slept 1000, Fetched u, Slept 2000, Fetched u, Slept 4000, Fetched u]
       \<and> validateTokenListUrl net u tr = fetchTokenListWithRetry net u 3 tr"
  using validateTokenListUrl_all_fail [of net u tr] assms by (simp add: validateTokenListUrl_def)

theorem fetchTokenListWithRetry_always_failing_witness:
  "fst (fetchTokenListWithRetry flakyNetwork vaultoPrimary 3 []) =
     \<lparr>url = vaultoPrimary, isValid = False, TokenListValidationResult.error = Some ''Invalid token list format'',
      tokenCount = None\<rparr>
   \<and> snd (fetchTokenListWithRetry flakyNetwork vaultoPrimary 3 []) =
      [Fetched vaultoPrimary, Slept 1000, Fetched vaultoPrimary, Slept 2000,
       Fetched vaultoPrimary, Slept 4000, Fetched vaultoPrimary]"
  using fetchTokenListWithRetry_always_failing [of flakyNetwork vaultoPrimary "[]", OF flakyNetwork_fails]
  by (simp add: flakyNetwork_def validateResponse_def okResponse_def ok_def validateTokenList_def
        blankNameList_def trim_def isWhiteSpace_def)

subsection \<open>The format check\<close>

lemma hasNumberField_typeof: "hasNumberField t k \<longleftrightarrow> typeof (getProp t k) = TNumber"
  by (cases t) (simp_all split: option.splits json.splits)

lemma hasStringField_typeof: "hasStringField t k \<longleftrightarrow> typeof (getProp t k) = TString"
  by (cases t) (simp_all split: option.splits json.splits)

lemma tokenIsMalformed_iff: "tokenIsMalformed t = Inr False \<longleftrightarrow> wellFormedToken t"
proof (cases "t = JNull")
  case True
  then show ?thesis by (simp add: tokenIsMalformed_def wellFormedToken_def)
next
  case False
  then show ?thesis
    by (auto simp: tokenIsMalformed_def wellFormedToken_def hasNumberField_typeof hasStringField_typeof)
qed

lemma validateTokens_iff: "validateTokens ts = Inr True \<longleftrightarrow> list_all wellFormedToken ts"
proof (induction ts)
  case Nil
  show ?case by simp
next
  case (Cons t ts)
  show ?case
  proof (cases "tokenIsMalformed t")
    case (Inl e)
    then have "\<not> wellFormedToken t" using tokenIsMalformed_iff [of t] by simp
    with Inl show ?thesis by simp
  next
    case (Inr b)
    then have "b = False \<longleftrightarrow> wellFormedToken t" using tokenIsMalformed_iff [of t] by simp
    with Inr Cons.IH show ?thesis by (cases b) simp_all
  qed
qed

lemma validateTokenList_iff: "validateTokenList d = Inr True \<longleftrightarrow> wellFormedTokenList d"
proof (cases d)
  case (JObject kvs)
  show ?thesis
  proof (cases "map_of kvs ''name''")
    case None
    with JObject show ?thesis by (simp add: validateTokenList_def)
  next
    case (Some nm)
    show ?thesis
    proof (cases nm)
      case (JString name)
      show ?thesis
      proof (cases "map_of kvs ''tokens''")
        case None
        with JObject Some JString show ?thesis by (simp add: validateTokenList_def)
      next
        case tk: (Some tks)
        with JObject Some JString show ?thesis
          by (cases tks) (simp_all add: validateTokenList_def validateTokens_iff)
      qed
    qed (use JObject Some in \<open>simp_all add: validateTokenList_def\<close>)
  qed
qed (simp_all add: validateTokenList_def)

text \<open>
  Claim C3. \<open>validateTokenList\<close> returns true exactly for the payloads of the format
  above. A payload that is not of that format makes the attempt that received it fail
  (the check returns false, or throws on a \<open>null\<close> element), and a payload of that format
  makes the attempt succeed with a token count equal to the length of its \<open>tokens\<close> array.
\<close>

theorem validateTokenList_accepts_iff_wellFormed:
  "(validateTokenList d = Inr True \<longleftrightarrow> wellFormedTokenList d)
   \<and> (\<not> wellFormedTokenList d \<longrightarrow> isl (validateResponse (okResponse d)))
   \<and> (wellFormedTokenList d \<longrightarrow>
        (\<exists>tokens. getProp d ''tokens'' = Some (JArray tokens)
                \<and> validateResponse (okResponse d) = Inr (length tokens)))"
proof (intro conjI impI)
  show "validateTokenList d = Inr True \<longleftrightarrow> wellFormedTokenList d"
    by (rule validateTokenList_iff)
next
  assume "\<not> wellFormedTokenList d"
  then have "validateTokenList d \<noteq> Inr True" by (simp add: validateTokenList_iff)
  then show "isl (validateResponse (okResponse d))"
    by (auto simp: validateResponse_def okResponse_def ok_def split: sum.splits bool.splits)
next
  assume wf: "wellFormedTokenList d"
  then have v: "validateTokenList d = Inr True" by (simp add: validateTokenList_iff)
  from wf obtain tokens where "getProp d ''tokens'' = Some (JArray tokens)"
    by (cases d) (auto split: option.splits json.splits)
  with v show "\<exists>tokens. getProp d ''tokens'' = Some (JArray tokens)
                \<and> validateResponse (okResponse d) = Inr (length tokens)"
    by (simp add: validateResponse_def okResponse_def ok_def tokensLength_def)
qed

theorem validateTokenList_accepts_iff_wellFormed_witness:
  "validateTokenList sampleTokenList = Inr True
   \<and> validateResponse (okResponse sampleTokenList) = Inr 2
   \<and> validateTokenList stringDecimalsList = Inr False
   \<and> isl (validateResponse (okResponse stringDecimalsList))"
  using validateTokenList_accepts_iff_wellFormed [of sampleTokenList]
        validateTokenList_accepts_iff_wellFormed [of stringDecimalsList]
  by (simp add: sampleTokenList_def stringDecimalsList_def wellFormedToken_def trim_def
        isWhiteSpace_def validateTokenList_def tokenIsMalformed_def)

subsection \<open>The choice of URLs\<close>

text \<open>
  Claim C4. When every fetch-and-validate attempt on the primary URL fails and the
  validation of the fallback URL succeeds, \<open>getValidatedTokenListUrls\<close> returns the
  one-element list of the fallback URL, which does not contain the primary URL.
\<close>

theorem getValidatedTokenListUrls_fallback_only:
  assumes "\<forall>i. isl (validateResponse (net i primaryUrl))"
      and "isValid (fst (validateTokenListUrl net fallbackUrl
                           (snd (validateTokenListUrl net primaryUrl tr))))"
  shows "fst (getValidatedTokenListUrls net primaryUrl fallbackUrl tr) = [fallbackUrl]
         \<and> primaryUrl \<notin> set (fst (getValidatedTokenListUrls net primaryUrl fallbackUrl tr))"
proof -
  have p: "\<not> isValid (fst (validateTokenListUrl net primaryUrl t))" for t
    using assms(1) by (rule validateTokenListUrl_invalid_of_all_fail)
  with assms(2) have "primaryUrl \<noteq> fallbackUrl" by auto
  moreover have "fst (getValidatedTokenListUrls net primaryUrl fallbackUrl tr) = [fallbackUrl]"
    using p [of tr] by (simp add: getValidatedTokenListUrls_def case_prod_beta)
  ultimately show ?thesis by simp
qed

theorem getValidatedTokenListUrls_fallback_only_witness:
  "fst (getValidatedTokenListUrls onlyFallbackUp vaultoPrimary vaultoFallback []) = [vaultoFallback]"
proof -
  have down: "\<forall>i. isl (validateResponse (onlyFallbackUp i vaultoPrimary))"
    by (simp add: onlyFallbackUp_def vaultoPrimary_def vaultoFallback_def validateResponse_def)
  have up: "isValid (fst (validateTokenListUrl onlyFallbackUp vaultoFallback
                (snd (validateTokenListUrl onlyFallbackUp vaultoPrimary []))))"
    by (simp add: validateTokenListUrl_first_success [where n = 2] onlyFallbackUp_def
          validateResponse_sample)
  from getValidatedTokenListUrls_fallback_only [OF down up] show ?thesis by simp
qed

text \<open>
  Claim C8. Whatever the three validations give, \<open>getCowSwapTokenLists\<close> returns a list
  that starts with the Vaulto primary URL when its validation succeeded and with the
  Vaulto fallback URL otherwise (whether or not the fallback validates), followed by the
  Uniswap URL exactly when the Uniswap list validates, and by nothing else.
\<close>

theorem getCowSwapTokenLists_result:
  "fst (getCowSwapTokenLists net tr) =
     (let primaryResult = validateTokenListUrl net vaultoPrimary tr;
          afterVaulto = (if isValid (fst primaryResult) then snd primaryResult
                         else snd (validateTokenListUrl net vaultoFallback (snd primaryResult)));
          uniswapResult = validateTokenListUrl net uniswapList afterVaulto
      in (if isValid (fst primaryResult) then vaultoPrimary else vaultoFallback)
         # (if isValid (fst uniswapResult) then [uniswapList] else []))"
  by (simp add: getCowSwapTokenLists_def Let_def case_prod_beta)

theorem getCowSwapTokenLists_result_witness:
  "fst (getCowSwapTokenLists onlyUniswapUp []) = [vaultoFallback, uniswapList]"
proof -
  have down: "\<forall>i. isl (validateResponse (onlyUniswapUp i u))" if "u \<noteq> uniswapList" for u
    using that by (simp add: onlyUniswapUp_def validateResponse_def)
  have p: "\<not> isValid (fst (validateTokenListUrl onlyUniswapUp vaultoPrimary t))" for t
    by (rule validateTokenListUrl_invalid_of_all_fail, rule down)
       (simp add: vaultoPrimary_def uniswapList_def)
  have u: "isValid (fst (validateTokenListUrl onlyUniswapUp uniswapList t))" for t
    by (simp add: validateTokenListUrl_first_success [where n = 2] onlyUniswapUp_def
          validateResponse_sample)
  show ?thesis
    using getCowSwapTokenLists_result [of onlyUniswapUp "[]"] p u by (simp add: Let_def)
qed

section \<open>Properties of the stock-pct-change route\<close>









section \<open>Properties of the token details component\<close>

subsection \<open>The liquidity figures\<close>

lemma parseInitial_positive: "positiveOrNull (parseInitial pf p)"
  by (simp add: parseInitial_def Let_def)

lemma renderValues_initial:
  assumes "computeRenderValues l pint pf addr cid sp = Inr rv"
  shows "positiveOrNull (initialTvl rv) \<and> positiveOrNull (initialVolume rv)"
  using assms
  by (auto simp: computeRenderValues_def Let_def parseInitial_positive split: sum.splits)

lemma definedAndPositive_positiveOrNull: "definedAndPositive x \<Longrightarrow> positiveOrNull x"
  by (cases x) auto

lemma setInitialValues_inv:
  assumes "stateInv s" "positiveOrNull (initialTvl rv)" "positiveOrNull (initialVolume rv)"
  shows "stateInv (setInitialValues rv s)"
  using assms by (simp add: stateInv_def setInitialValues_def Let_def)

lemma tvlVolumeTry_inv:
  assumes "stateInv s" "tvlVolumeTry a rv s = Inr s'"
  shows "stateInv s'"
  using assms
  by (auto simp: tvlVolumeTry_def stateInv_def Let_def definedAndPositive_positiveOrNull
      split: if_splits sum.splits option.splits)

lemma fetchTvlVolume_inv: "stateInv s \<Longrightarrow> stateInv (fetchTvlVolume a rv s)"
  using tvlVolumeTry_inv [of s a rv]
  by (auto simp: fetchTvlVolume_def stateInv_def split: sum.splits)

lemma fetchStock_numbers:
  "componentState.tvlUSD (fetchStock a rv cg s) = componentState.tvlUSD s"
  "componentState.volumeUSD (fetchStock a rv cg s) = componentState.volumeUSD s"
  by (auto simp: fetchStock_def stockTry_def split: sum.splits)

lemma fetchData_inv: "stateInv s \<Longrightarrow> stateInv (fetchData a rv s)"
proof -
  assume inv: "stateInv s"
  show ?thesis
  proof (cases "fetchPriceData a rv")
    case (Inl err)
    with inv show ?thesis by (simp add: fetchData_def stateInv_def)
  next
    case (Inr priceData)
    let ?s = "fetchStock a rv (coingeckoData s) (s\<lparr>isLoading := True, error := None, coingeckoData := priceData\<rparr>)"
    have "stateInv ?s" using inv by (simp add: stateInv_def fetchStock_numbers)
    then have "stateInv (fetchTvlVolume a rv ?s)" by (rule fetchTvlVolume_inv)
    with Inr show ?thesis by (simp add: fetchData_def stateInv_def)
  qed
qed

lemma applyUpdate_inv: "stateInv s \<Longrightarrow> stateInv (applyUpdate u s)"
proof (cases u)
  case (SetInitialValues i)
  assume "stateInv s"
  with SetInitialValues show ?thesis
    using renderValues_initial [of "lib i" "parseInt i" "parseFloat i" "addressProp i" "chainIdProp i" "params i"]
    by (auto simp: renderValuesOf_def setInitialValues_inv split: sum.splits)
next
  case (FetchData i a)
  assume "stateInv s"
  with FetchData show ?thesis by (auto simp: fetchData_inv split: sum.splits)
qed

lemma applyUpdates_inv: "stateInv s \<Longrightarrow> stateInv (applyUpdates us s)"
  by (induction us arbitrary: s) (simp_all add: applyUpdate_inv)

text \<open>
  Claim C7. After every sequence of state updates from the initial state (the effect that
  copies the URL parameters, and \<open>fetchData\<close>), \<open>tvlUSD\<close> and \<open>volumeUSD\<close> are each
  \<open>null\<close> or a number that is not \<open>NaN\<close> and is greater than zero.
\<close>

theorem tvl_volume_positive_or_null:
  "positiveOrNull (componentState.tvlUSD (applyUpdates us initialState))
   \<and> positiveOrNull (componentState.volumeUSD (applyUpdates us initialState))"
proof -
  have "stateInv initialState" by (simp add: stateInv_def initialState_def)
  then have "stateInv (applyUpdates us initialState)" by (rule applyUpdates_inv)
  then show ?thesis by (simp add: stateInv_def)
qed

lemma sampleInputs_values:
  "renderValuesOf sampleInputs =
     Inr \<lparr>address = ''0xNVDA'', searchResultSymbol = None,
          token = Some \<lparr>Token.symbol = ''NVDAon'', name = ''NVIDIA''\<rparr>,
          tokenChainId = Fin 1, isStock = True, ticker = Some ''NVDA'',
          initialTvl = None, initialVolume = Some (Fin (25 / 2)),
          tokenSymbol = ''NVDAon''\<rparr>"
  by (simp add: renderValuesOf_def sampleInputs_def computeRenderValues_def sampleLib_def
        parseInitial_def sampleParseFloat_def Let_def)

theorem tvl_volume_positive_or_null_witness:
  "componentState.tvlUSD
     (applyUpdates [SetInitialValues sampleInputs, FetchData sampleInputs samplePools] initialState)
     = Some (Fin 150)
   \<and> componentState.volumeUSD
     (applyUpdates [SetInitialValues sampleInputs, FetchData sampleInputs samplePools] initialState)
     = Some (Fin (25 / 2))"
  using tvl_volume_positive_or_null
          [of "[SetInitialValues sampleInputs, FetchData sampleInputs samplePools]"]
  by (simp add: sampleInputs_values setInitialValues_def initialState_def fetchData_def
        fetchPriceData_def samplePools_def alternativeChains_def fetchStock_def wantsStockData_def
        stockTry_def fetchTvlVolume_def tvlVolumeTry_def Let_def)

subsection \<open>Ondo tokens\<close>

lemma toUpperCase_length [simp]: "length (toUpperCase s) = length s"
  by (simp add: toUpperCase_def)

text \<open>
  Claim C9. Once loading has finished, for every effective symbol longer than two
  characters whose upper-case form ends in \<open>ON\<close>, whether or not the configuration marks
  the token as a tokenized stock, the component renders the chart with type \<open>stock\<close> and
  with the upper-cased symbol without its last two characters as chart symbol (\<open>SPY\<close> for
  \<open>SPYON\<close>), renders the "Tokenized Stock" badge, and \<open>fetchData\<close> asks for stock data.
\<close>

theorem render_ondo_classification:
  assumes "\<not> isLoading s"
      and "endsWith (toUpperCase (effectiveSymbolOf (searchResultSymbol rv) (coingeckoData s) (tokenSymbol rv))) ''ON''"
      and "length (effectiveSymbolOf (searchResultSymbol rv) (coingeckoData s) (tokenSymbol rv)) > 2"
  shows "render rv s =
           TokenDetails
             \<lparr>chartSymbol =
                (if toUpperCase (effectiveSymbolOf (searchResultSymbol rv) (coingeckoData s) (tokenSymbol rv)) = ''SPYON''
                 then ''SPY''
                 else toUpperCase (sliceOffLastTwo (effectiveSymbolOf (searchResultSymbol rv) (coingeckoData s) (tokenSymbol rv)))),
              chartType = Stock,
              tokenizedStockBadge = True\<rparr>
         \<and> wantsStockData rv (coingeckoData s)"
proof -
  let ?e = "effectiveSymbolOf (searchResultSymbol rv) (coingeckoData s) (tokenSymbol rv)"
  have ondo: "isOndoTokenOf ?e" using assms(2,3) by (simp add: isOndoTokenOf_def)
  have tick: "ondoTickerOf ?e = Some (toUpperCase (sliceOffLastTwo ?e))"
    using ondo by (simp add: ondoTickerOf_def)
  have nonempty: "toUpperCase (sliceOffLastTwo ?e) \<noteq> []"
    using assms(3) by (auto simp: toUpperCase_def sliceOffLastTwo_def)
  show ?thesis
    using assms(1) ondo tick nonempty
    by (simp add: render_def wantsStockData_def Let_def ondoTickerMappings_def)
qed

lemma upper_TON: "toUpperCase ''TON'' = ''TON''" "toUpperCase ''T'' = ''T''"
  by (simp_all add: toUpperCase_def toUpperChar_def)

theorem render_ondo_classification_witness:
  "render tonValues (initialState\<lparr>isLoading := False\<rparr>) =
     TokenDetails \<lparr>chartSymbol = ''T'', chartType = Stock, tokenizedStockBadge = True\<rparr>"
  using render_ondo_classification [of "initialState\<lparr>isLoading := False\<rparr>" tonValues]
  by (simp add: tonValues_def initialState_def effectiveSymbolOf_def endsWith_def upper_TON
        sliceOffLastTwo_def)

subsection \<open>Failures of the fetches\<close>

lemma stockTry_isl_state: "isl (stockTry a rv s) = isl (stockTry a rv s')"
  by (auto simp: stockTry_def split: sum.splits)

lemma tvlVolumeTry_isl_state: "isl (tvlVolumeTry a rv s) = isl (tvlVolumeTry a rv s')"
  by (auto simp: tvlVolumeTry_def Let_def split: sum.splits option.splits)

lemma stockTry_error_toasts:
  assumes "stockTry a rv s = Inr s'"
  shows "componentState.error s' = componentState.error s \<and> toasts s' = toasts s"
  using assms by (auto simp: stockTry_def split: sum.splits if_splits)

lemma fetchStock_error_toasts:
  "componentState.error (fetchStock a rv cg s) = componentState.error s"
  "toasts (fetchStock a rv cg s) = toasts s"
proof -
  show "componentState.error (fetchStock a rv cg s) = componentState.error s"
    by (cases "stockTry a rv s")
       (use stockTry_error_toasts [of a rv s] in \<open>simp_all add: fetchStock_def\<close>)
  show "toasts (fetchStock a rv cg s) = toasts s"
    by (cases "stockTry a rv s")
       (use stockTry_error_toasts [of a rv s] in \<open>simp_all add: fetchStock_def\<close>)
qed

lemma fetchStock_logs_failure:
  assumes "wantsStockData rv cg" "isl (stockTry a rv s)"
  shows "console (fetchStock a rv cg s) = console s @ [''Error fetching stock data:'']"
  using assms by (auto simp: fetchStock_def split: sum.splits)

lemma tvlVolumeTry_unchanged:
  assumes "tvlVolumeTry a rv s = Inr s'"
  shows "componentState.error s' = componentState.error s \<and> toasts s' = toasts s \<and> console s' = console s"
  using assms
  by (auto simp: tvlVolumeTry_def Let_def split: sum.splits option.splits if_splits)

lemma fetchTvlVolume_error_toasts:
  "componentState.error (fetchTvlVolume a rv s) = componentState.error s"
  "toasts (fetchTvlVolume a rv s) = toasts s"
proof -
  show "componentState.error (fetchTvlVolume a rv s) = componentState.error s"
    by (cases "tvlVolumeTry a rv s")
       (use tvlVolumeTry_unchanged [of a rv s] in \<open>simp_all add: fetchTvlVolume_def\<close>)
  show "toasts (fetchTvlVolume a rv s) = toasts s"
    by (cases "tvlVolumeTry a rv s")
       (use tvlVolumeTry_unchanged [of a rv s] in \<open>simp_all add: fetchTvlVolume_def\<close>)
qed

lemma fetchTvlVolume_console:
  "console (fetchTvlVolume a rv s) =
     console s @ (if (initialTvl rv = None \<or> initialVolume rv = None) \<and> isl (tvlVolumeTry a rv s)
                  then [''Error fetching TVL/volume data:''] else [])"
proof (cases "tvlVolumeTry a rv s")
  case (Inl e)
  then show ?thesis by (simp add: fetchTvlVolume_def)
next
  case (Inr s')
  then show ?thesis using tvlVolumeTry_unchanged [of a rv s s'] by (simp add: fetchTvlVolume_def)
qed

text \<open>
  Claim C5. \<open>fetchData\<close> always ends with \<open>isLoading\<close> false. When the primary price
  fetch throws, the error state is set and exactly one toast is raised. When it does not
  throw, the error state stays \<open>null\<close> and no toast is raised, whatever the stock-data
  fetch and the TVL/volume fetch do; a failure of either of them is logged to the console.
\<close>

theorem fetchData_error_policy:
  "isLoading (fetchData a rv s) = False
   \<and> (isl (fetchPriceData a rv) \<longrightarrow>
        componentState.error (fetchData a rv s) \<noteq> None
        \<and> toasts (fetchData a rv s) = toasts s @ [''Failed to load token data''])
   \<and> (\<not> isl (fetchPriceData a rv) \<longrightarrow>
        componentState.error (fetchData a rv s) = None
        \<and> toasts (fetchData a rv s) = toasts s
        \<and> (wantsStockData rv (coingeckoData s) \<and> isl (stockTry a rv s) \<longrightarrow>
             ''Error fetching stock data:'' \<in> set (console (fetchData a rv s)))
        \<and> ((initialTvl rv = None \<or> initialVolume rv = None) \<and> isl (tvlVolumeTry a rv s) \<longrightarrow>
             ''Error fetching TVL/volume data:'' \<in> set (console (fetchData a rv s))))"
proof (cases "fetchPriceData a rv")
  case (Inl err)
  then show ?thesis by (simp add: fetchData_def)
next
  case (Inr priceData)
  let ?s1 = "s\<lparr>isLoading := True, componentState.error := None, coingeckoData := priceData\<rparr>"
  let ?s2 = "fetchStock a rv (coingeckoData s) ?s1"
  have fd: "fetchData a rv s = (fetchTvlVolume a rv ?s2)\<lparr>isLoading := False\<rparr>"
    using Inr by (simp add: fetchData_def)
  have err: "componentState.error (fetchData a rv s) = None"
    by (simp add: fd fetchTvlVolume_error_toasts fetchStock_error_toasts)
  have tst: "toasts (fetchData a rv s) = toasts s"
    by (simp add: fd fetchTvlVolume_error_toasts fetchStock_error_toasts)
  have stock: "''Error fetching stock data:'' \<in> set (console (fetchData a rv s))"
    if "wantsStockData rv (coingeckoData s)" "isl (stockTry a rv s)"
  proof -
    have "isl (stockTry a rv ?s1)" using that(2) stockTry_isl_state [of a rv s ?s1] by simp
    then have "console ?s2 = console ?s1 @ [''Error fetching stock data:'']"
      using that(1) by (rule fetchStock_logs_failure [rotated])
    then show ?thesis by (simp add: fd fetchTvlVolume_console)
  qed
  have tvl: "''Error fetching TVL/volume data:'' \<in> set (console (fetchData a rv s))"
    if "initialTvl rv = None \<or> initialVolume rv = None" "isl (tvlVolumeTry a rv s)"
  proof -
    have "isl (tvlVolumeTry a rv ?s2)" using that(2) tvlVolumeTry_isl_state [of a rv s ?s2] by simp
    then show ?thesis using that(1) by (simp add: fd fetchTvlVolume_console)
  qed
  show ?thesis using Inr err tst stock tvl by (simp add: fd)
qed

lemma priceDown_fails: "fetchPriceData priceDown tonValues = Inl (ErrorObject ''Network error'')"
  by (simp add: fetchPriceData_def priceDown_def tonValues_def)

lemma optionalDown_price: "fetchPriceData optionalDown tonValues = Inr None"
  by (simp add: fetchPriceData_def optionalDown_def tonValues_def alternativeChains_def)

lemma tonValues_wantsStockData: "wantsStockData tonValues None"
  by (simp add: wantsStockData_def tonValues_def effectiveSymbolOf_def isOndoTokenOf_def
        ondoTickerOf_def endsWith_def upper_TON sliceOffLastTwo_def)

theorem fetchData_error_policy_witness:
  "componentState.error (fetchData priceDown tonValues initialState) \<noteq> None
   \<and> toasts (fetchData priceDown tonValues initialState) = [''Failed to load token data'']
   \<and> \<not> isLoading (fetchData priceDown tonValues initialState)
   \<and> componentState.error (fetchData optionalDown tonValues initialState) = None
   \<and> toasts (fetchData optionalDown tonValues initialState) = []
   \<and> ''Error fetching stock data:'' \<in> set (console (fetchData optionalDown tonValues initialState))
   \<and> ''Error fetching TVL/volume data:'' \<in> set (console (fetchData optionalDown tonValues initialState))
   \<and> \<not> isLoading (fetchData optionalDown tonValues initialState)"
proof -
  have stock: "isl (stockTry optionalDown tonValues initialState)"
    by (simp add: stockTry_def optionalDown_def)
  have tvl: "isl (tvlVolumeTry optionalDown tonValues initialState)"
    by (simp add: tvlVolumeTry_def optionalDown_def tonValues_def)
  have needs: "initialTvl tonValues = None" by (simp add: tonValues_def)
  have cg: "coingeckoData initialState = None" by (simp add: initialState_def)
  have t0: "toasts initialState = []" by (simp add: initialState_def)
  show ?thesis
    using fetchData_error_policy [of priceDown tonValues initialState] fetchData_error_policy [of optionalDown tonValues initialState]
      priceDown_fails optionalDown_price tonValues_wantsStockData stock tvl needs cg t0
    by simp
qed

end
